theory Spec2Isabelle
  imports Complex_Main "HOL-Library.Char_ord" "HOL-Library.List_Lexorder"
begin

section \<open>The query tree of \<open>whoosh/query.py\<close>\<close>

text \<open>
  Every query class of \<open>query.py\<close> is one constructor; the arguments are the
  attributes the class's \<open>__init__\<close> stores, in the order of its parameters.
  Boosts, the tie-break and the minimum similarity are Python floats that the code
  only stores, copies and compares; they are modelled as reals.
  \<open>Wildcard\<close> also stores \<open>expression\<close> and \<open>prefix\<close>, and \<open>Variations\<close> stores
  \<open>words\<close>; all three are computed from \<open>text\<close> alone and are functions of the
  node here. \<open>NullQuery\<close> is the module's singleton instance.

  The class \<open>Every\<close> declares no \<open>__init__\<close> of its own, while
  \<open>Wildcard.normalize\<close> constructs it as \<open>Every(boost=self.boost)\<close> and
  \<open>Every.__eq__\<close> reads \<open>self.boost\<close>. The model takes that call to produce the
  \<open>Every\<close> query it names, and the constructor carries the boost. What the interpreter
  does with the keyword for a class without \<open>__init__\<close> depends on its version
  (Python 2.5 accepts and drops it, later versions raise \<open>TypeError\<close>).
\<close>

datatype query =
    Term string string real
  | And "query list" real
  | Or "query list" real int
  | DisjunctionMax "query list" real real
  | Not query real
  | Prefix string string real
  | Wildcard string string real
  | FuzzyTerm string string real real int
  | TermRange string string string bool bool real
  | Variations string string real
  | Phrase string "string list" int real
  | Every real
  | NullQuery
  | Require query query real
  | AndMaybe query query real
  | AndNot query query real

text \<open>The exceptions the modelled code can raise.\<close>

datatype error =
    TermNotFound
  | QueryError
  | AttributeError
  | TypeError
  | NotImplementedError
  | ValueError

text \<open>
  A list comprehension whose element expression can raise: the elements are evaluated
  from the left and the first exception ends the evaluation.
\<close>

fun collect :: "(error + 'a) list \<Rightarrow> error + 'a list" where
  "collect [] = Inr []"
| "collect (x # xs) =
     (case x of
        Inl e \<Rightarrow> Inl e
      | Inr v \<Rightarrow> (case collect xs of Inl e \<Rightarrow> Inl e | Inr vs \<Rightarrow> Inr (v # vs)))"

text \<open>
  The three classes that inherit \<open>CompoundQuery.normalize\<close>: \<open>self.__class__\<close>
  in that method is one of them (\<open>Require\<close> and \<open>AndMaybe\<close> override it).
\<close>

datatype cls = AndC | OrC | DisjunctionMaxC

fun is_instance :: "cls \<Rightarrow> query \<Rightarrow> bool" where
  "is_instance AndC (And qs b) = True"
| "is_instance OrC (Or qs b m) = True"
| "is_instance DisjunctionMaxC (DisjunctionMax qs b t) = True"
| "is_instance c q = False"

fun subqueries :: "query \<Rightarrow> query list" where
  "subqueries (And qs b) = qs"
| "subqueries (Or qs b m) = qs"
| "subqueries (DisjunctionMax qs b t) = qs"
| "subqueries (Require a r b) = [a, r]"
| "subqueries (AndMaybe a r b) = [a, r]"
| "subqueries q = []"

fun is_Term :: "query \<Rightarrow> bool" where
  "is_Term (Term f t b) = True"
| "is_Term q = False"

fun term_key :: "query \<Rightarrow> string \<times> string" where
  "term_key (Term f t b) = (f, t)"
| "term_key q = ([], [])"

text \<open>
  \<open>self.__class__(subqs, boost=self.boost)\<close>: the other keyword of \<open>Or\<close> and of
  \<open>DisjunctionMax\<close> takes its default.
\<close>

fun construct :: "cls \<Rightarrow> query list \<Rightarrow> real \<Rightarrow> query" where
  "construct AndC qs b = And qs b"
| "construct OrC qs b = Or qs b 0"
| "construct DisjunctionMaxC qs b = DisjunctionMax qs b 0"

subsection \<open>Normalization\<close>

text \<open>
  The loop of \<open>CompoundQuery.normalize\<close> over the normalized subqueries, with its two
  accumulators \<open>seenterms\<close> and \<open>subqs\<close>. \<open>normalize\<close> raises nothing and has no
  effect, so normalizing every subquery before the loop gives what normalizing each
  inside it gives.
\<close>

fun normalize_loop ::
  "cls \<Rightarrow> query list \<Rightarrow> (string \<times> string) set \<Rightarrow> query list \<Rightarrow> query list" where
  "normalize_loop c [] seenterms subqs = subqs"
| "normalize_loop c (s # rest) seenterms subqs =
     (if s = NullQuery then normalize_loop c rest seenterms subqs
      else if is_Term s \<and> term_key s \<in> seenterms then normalize_loop c rest seenterms subqs
      else
        let seenterms' = (if is_Term s then insert (term_key s) seenterms else seenterms)
        in if is_instance c s
           then normalize_loop c rest seenterms' (subqs @ subqueries s)
           else normalize_loop c rest seenterms' (subqs @ [s]))"

definition normalize_result :: "cls \<Rightarrow> real \<Rightarrow> query list \<Rightarrow> query" where
  "normalize_result c b subqs =
     (if subqs = [] then NullQuery
      else if length subqs = 1 then subqs ! 0
      else construct c subqs b)"

text \<open>\<open>text.find(ch)\<close>: the index of the first occurrence, or \<open>-1\<close>.\<close>

fun str_find :: "string \<Rightarrow> char \<Rightarrow> int" where
  "str_find [] ch = -1"
| "str_find (x # xs) ch =
     (if x = ch then 0 else (let r = str_find xs ch in if r < 0 then -1 else r + 1))"

definition endswith :: "string \<Rightarrow> string \<Rightarrow> bool" where
  "endswith text suffix =
     (length suffix \<le> length text \<and> drop (length text - length suffix) text = suffix)"

definition backslash :: char where
  "backslash = CHR 0x5C"

text \<open>
  The last two lines of \<open>Or.normalize\<close> and of \<open>DisjunctionMax.normalize\<close>:
  \<open>if norm.__class__ is self.__class__: norm.minmatch = self.minmatch\<close>, and the same
  with \<open>tiebreak\<close>.
\<close>

fun set_minmatch :: "query \<Rightarrow> int \<Rightarrow> query" where
  "set_minmatch (Or qs b m) minmatch = Or qs b minmatch"
| "set_minmatch q minmatch = q"

fun set_tiebreak :: "query \<Rightarrow> real \<Rightarrow> query" where
  "set_tiebreak (DisjunctionMax qs b t) tiebreak = DisjunctionMax qs b tiebreak"
| "set_tiebreak q tiebreak = q"

text \<open>
  \<open>normalize\<close>, one equation per class, in the words of each class's method. The words
  of a \<open>Phrase\<close> are strings, so the filter \<open>w is not None\<close> of \<open>Phrase.normalize\<close>
  keeps them all.
\<close>

fun normalize :: "query \<Rightarrow> query" where
  "normalize (And qs b) =
     (let subqueries = filter (\<lambda>q. q \<noteq> NullQuery) qs
      in if subqueries = [] then NullQuery
         else normalize_result AndC b (normalize_loop AndC (map normalize subqueries) {} []))"
| "normalize (Or qs b minmatch) =
     (let norm =
        (let subqueries = filter (\<lambda>q. q \<noteq> NullQuery) qs
         in if subqueries = [] then NullQuery
            else normalize_result OrC b (normalize_loop OrC (map normalize subqueries) {} []))
      in set_minmatch norm minmatch)"
| "normalize (DisjunctionMax qs b tiebreak) =
     (let norm =
        (let subqueries = filter (\<lambda>q. q \<noteq> NullQuery) qs
         in if subqueries = [] then NullQuery
            else normalize_result DisjunctionMaxC b
                   (normalize_loop DisjunctionMaxC (map normalize subqueries) {} []))
      in set_tiebreak norm tiebreak)"
| "normalize (Not q b) =
     (let query = normalize q in if query = NullQuery then NullQuery else Not query b)"
| "normalize (Wildcard f text b) =
     (if text = ''*'' then Every b
      else if CHR ''*'' \<notin> set text \<and> CHR ''?'' \<notin> set text then Term f text b
      else if CHR ''?'' \<notin> set text
              \<and> endswith text ''*''
              \<and> str_find text CHR ''*'' = int (length text) - 1
              \<and> (length text < 2 \<or> text ! (length text - 2) \<noteq> backslash)
           then Prefix f (butlast text) b
      else Wildcard f text b)"
| "normalize (TermRange f start end startexcl endexcl b) =
     (if start = end then Term f start b
      else TermRange f start end startexcl endexcl b)"
| "normalize (Phrase f words slop b) =
     (if words = [] then NullQuery
      else if length words = 1 then Term f (words ! 0) 1
      else Phrase f words slop b)"
| "normalize (Require scored required b) =
     (let subqueries = [normalize scored, normalize required]
      in if NullQuery \<in> set subqueries then NullQuery
         else Require (subqueries ! 0) (subqueries ! 1) b)"
| "normalize (AndMaybe required optional b) =
     (let required' = normalize required; optional' = normalize optional
      in if required' = NullQuery then NullQuery
         else if optional' = NullQuery then required'
         else AndMaybe required' optional' b)"
| "normalize (AndNot positive negative b) =
     (let pos = normalize positive; neg = normalize negative
      in if pos = NullQuery then NullQuery
         else if neg = NullQuery then pos
         else AndNot pos neg b)"
| "normalize (Term f t b) = Term f t b"
| "normalize (Prefix f t b) = Prefix f t b"
| "normalize (FuzzyTerm f t b ms pl) = FuzzyTerm f t b ms pl"
| "normalize (Variations f t b) = Variations f t b"
| "normalize (Every b) = Every b"
| "normalize NullQuery = NullQuery"

text \<open>
  The list \<open>subqs\<close> as the loop of \<open>CompoundQuery.normalize\<close> leaves it: the surviving
  children of a compound with subqueries \<open>qs\<close>. For an empty filtered list the method
  returns before the loop; the loop would leave the empty list there.
\<close>

definition normalize_subqs :: "cls \<Rightarrow> query list \<Rightarrow> query list" where
  "normalize_subqs c qs =
     normalize_loop c (map normalize (filter (\<lambda>q. q \<noteq> NullQuery) qs)) {} []"

subsection \<open>The shape of normalized queries\<close>

text \<open>
  \<open>flat q\<close>: what one pass of \<open>normalize\<close> establishes. A compound has at least two
  children, none of them \<open>NullQuery\<close> and none of its own class; the operands of
  \<open>Not\<close> and of the binary queries are not \<open>NullQuery\<close>; leaves are not reducible.
\<close>

fun flat :: "query \<Rightarrow> bool" where
  "flat (And qs b) =
     (2 \<le> length qs \<and> (\<forall>q \<in> set qs. q \<noteq> NullQuery \<and> \<not> is_instance AndC q \<and> flat q))"
| "flat (Or qs b m) =
     (2 \<le> length qs \<and> (\<forall>q \<in> set qs. q \<noteq> NullQuery \<and> \<not> is_instance OrC q \<and> flat q))"
| "flat (DisjunctionMax qs b t) =
     (2 \<le> length qs
      \<and> (\<forall>q \<in> set qs. q \<noteq> NullQuery \<and> \<not> is_instance DisjunctionMaxC q \<and> flat q))"
| "flat (Not q b) = (q \<noteq> NullQuery \<and> flat q)"
| "flat (Wildcard f t b) = (normalize (Wildcard f t b) = Wildcard f t b)"
| "flat (TermRange f s e sx ex b) = (s \<noteq> e)"
| "flat (Phrase f ws slop b) = (2 \<le> length ws)"
| "flat (Require a r b) = (a \<noteq> NullQuery \<and> r \<noteq> NullQuery \<and> flat a \<and> flat r)"
| "flat (AndMaybe a r b) = (a \<noteq> NullQuery \<and> r \<noteq> NullQuery \<and> flat a \<and> flat r)"
| "flat (AndNot a r b) = (a \<noteq> NullQuery \<and> r \<noteq> NullQuery \<and> flat a \<and> flat r)"
| "flat q = True"

definition child_ok :: "cls \<Rightarrow> query \<Rightarrow> bool" where
  "child_ok c q \<longleftrightarrow> q \<noteq> NullQuery \<and> \<not> is_instance c q \<and> flat q"

text \<open>
  \<open>distinct_terms q\<close>: no \<open>And\<close>, \<open>Or\<close> or \<open>DisjunctionMax\<close> anywhere in \<open>q\<close> has two
  direct \<open>Term\<close> children with the same field name and text.
\<close>

fun distinct_terms :: "query \<Rightarrow> bool" where
  "distinct_terms (And qs b) =
     (distinct (map term_key (filter is_Term qs)) \<and> (\<forall>q \<in> set qs. distinct_terms q))"
| "distinct_terms (Or qs b m) =
     (distinct (map term_key (filter is_Term qs)) \<and> (\<forall>q \<in> set qs. distinct_terms q))"
| "distinct_terms (DisjunctionMax qs b t) =
     (distinct (map term_key (filter is_Term qs)) \<and> (\<forall>q \<in> set qs. distinct_terms q))"
| "distinct_terms (Not q b) = distinct_terms q"
| "distinct_terms (Require a r b) = (distinct_terms a \<and> distinct_terms r)"
| "distinct_terms (AndMaybe a r b) = (distinct_terms a \<and> distinct_terms r)"
| "distinct_terms (AndNot a r b) = (distinct_terms a \<and> distinct_terms r)"
| "distinct_terms q = True"

section \<open>Equality of phrases\<close>

text \<open>
  \<open>Phrase.__eq__(self, other)\<close>. The operands of the chained \<open>and\<close> are evaluated
  from the left and the chain stops at the first false one. No query class defines
  \<open>__nonzero__\<close> or \<open>__len__\<close>, so \<open>other\<close> is true. The fourth operand reads
  \<open>other.word\<close>; no class of the module has an attribute of that name (a \<open>Phrase\<close>
  stores \<open>fieldname\<close>, \<open>words\<close>, \<open>slop\<close> and \<open>boost\<close>), so reading it raises
  \<open>AttributeError\<close>. The method belongs to \<open>Phrase\<close>: for another \<open>self\<close> Python
  refuses the call with \<open>TypeError\<close>.
\<close>

definition attr_word :: "query \<Rightarrow> error + string list" where
  "attr_word other = Inl AttributeError"

definition Phrase_eq :: "query \<Rightarrow> query \<Rightarrow> error + bool" where
  "Phrase_eq self other =
     (case self of
        Phrase f ws sl b \<Rightarrow>
          (case other of
             Phrase f' ws' sl' b' \<Rightarrow>
               (if f \<noteq> f' then Inr False
                else case attr_word other of
                       Inl e \<Rightarrow> Inl e
                     | Inr w \<Rightarrow> Inr (ws = w \<and> sl = sl' \<and> b = b'))
           | _ \<Rightarrow> Inr False)
      | _ \<Rightarrow> Inl TypeError)"

section \<open>Term extraction\<close>

text \<open>
  What the \<open>_all_terms\<close> methods add to the set \<open>termset\<close>: \<open>Term\<close>, \<open>FuzzyTerm\<close> and
  \<open>Phrase\<close> add tuples \<open>(fieldname, text)\<close>; \<open>Variations._all_terms\<close> adds
  \<open>self.text\<close>, a string.
\<close>

datatype entry = TermTuple string string | Text string

fun is_tuple :: "entry \<Rightarrow> bool" where
  "is_tuple (TermTuple f t) = True"
| "is_tuple (Text t) = False"

text \<open>
  \<open>all_terms_into q termset phrases\<close> is \<open>q._all_terms(termset, phrases)\<close> and returns
  the set as the method has changed it. The methods call \<open>all_terms(termset, ...)\<close> on
  the subqueries with a set in hand, which calls \<open>_all_terms\<close> on the same set.
  The subqueries of \<open>Require\<close> and \<open>AndMaybe\<close> are a pair, and the loop of
  \<open>CompoundQuery._all_terms\<close> over it is written out.
  \<open>Every\<close> and \<open>NullQuery\<close> inherit \<open>all_terms\<close> from \<open>Query\<close>, and neither they nor
  \<open>Query\<close> define \<open>_all_terms\<close>: the call raises \<open>AttributeError\<close>. \<open>AndNot\<close> looks
  only into its positive side.
\<close>

fun all_terms_into :: "query \<Rightarrow> entry set \<Rightarrow> bool \<Rightarrow> error + entry set"
  and all_terms_each :: "query list \<Rightarrow> entry set \<Rightarrow> bool \<Rightarrow> error + entry set" where
  "all_terms_into (Term f t b) termset phrases = Inr (insert (TermTuple f t) termset)"
| "all_terms_into (And qs b) termset phrases = all_terms_each qs termset phrases"
| "all_terms_into (Or qs b m) termset phrases = all_terms_each qs termset phrases"
| "all_terms_into (DisjunctionMax qs b t) termset phrases = all_terms_each qs termset phrases"
| "all_terms_into (Require a r b) termset phrases =
     (case all_terms_into a termset phrases of
        Inl e \<Rightarrow> Inl e
      | Inr termset' \<Rightarrow> all_terms_into r termset' phrases)"
| "all_terms_into (AndMaybe a r b) termset phrases =
     (case all_terms_into a termset phrases of
        Inl e \<Rightarrow> Inl e
      | Inr termset' \<Rightarrow> all_terms_into r termset' phrases)"
| "all_terms_into (Not q b) termset phrases = all_terms_into q termset phrases"
| "all_terms_into (Prefix f t b) termset phrases = Inr termset"
| "all_terms_into (Wildcard f t b) termset phrases = Inr termset"
| "all_terms_into (TermRange f s e sx ex b) termset phrases = Inr termset"
| "all_terms_into (FuzzyTerm f t b ms pl) termset phrases = Inr (insert (TermTuple f t) termset)"
| "all_terms_into (Variations f t b) termset phrases = Inr (insert (Text t) termset)"
| "all_terms_into (Phrase f ws sl b) termset phrases =
     (if phrases then Inr (termset \<union> set (map (TermTuple f) ws)) else Inr termset)"
| "all_terms_into (AndNot p n b) termset phrases = all_terms_into p termset phrases"
| "all_terms_into (Every b) termset phrases = Inl AttributeError"
| "all_terms_into NullQuery termset phrases = Inl AttributeError"
| "all_terms_each [] termset phrases = Inr termset"
| "all_terms_each (q # qs) termset phrases =
     (case all_terms_into q termset phrases of
        Inl e \<Rightarrow> Inl e
      | Inr termset' \<Rightarrow> all_terms_each qs termset' phrases)"

text \<open>\<open>Query.all_terms(termset=None, phrases=True)\<close>.\<close>

definition all_terms :: "query \<Rightarrow> entry set option \<Rightarrow> bool \<Rightarrow> error + entry set" where
  "all_terms q termset phrases =
     all_terms_into q (case termset of None \<Rightarrow> {} | Some s \<Rightarrow> s) phrases"

text \<open>The queries with no \<open>Variations\<close> leaf.\<close>

fun no_variations :: "query \<Rightarrow> bool" where
  "no_variations (Variations f t b) = False"
| "no_variations (And qs b) = (\<forall>q \<in> set qs. no_variations q)"
| "no_variations (Or qs b m) = (\<forall>q \<in> set qs. no_variations q)"
| "no_variations (DisjunctionMax qs b t) = (\<forall>q \<in> set qs. no_variations q)"
| "no_variations (Not q b) = no_variations q"
| "no_variations (Require a r b) = (no_variations a \<and> no_variations r)"
| "no_variations (AndMaybe a r b) = (no_variations a \<and> no_variations r)"
| "no_variations (AndNot p n b) = (no_variations p \<and> no_variations n)"
| "no_variations q = True"

section \<open>Term statistics across segments (\<open>whoosh/reading.py\<close>)\<close>






text \<open>
  \<open>min\<close> and \<open>max\<close> of a sequence with at least one element, taken from the left.
  Where an element can be \<open>None\<close>, comparing it raises \<open>TypeError\<close> (Python 3; Python 2
  would order \<open>None\<close> below every number), and so does adding an offset to \<open>None\<close>.
\<close>

definition py_min :: "'a::linorder list \<Rightarrow> 'a" where
  "py_min xs = fold min (tl xs) (hd xs)"





section \<open>The index as \<open>query.py\<close> uses it\<close>

text \<open>
  The methods that \<open>query.py\<close> calls on an \<open>ixreader\<close>. The reader is not part of the
  module; the record holds what each call returns. \<open>fieldname_to_num\<close> can raise;
  the other calls return. \<open>iter_from\<close> yields 4-tuples of which the loop of
  \<open>TermRange._words\<close> reads the field number and the text. Membership is asked both for
  \<open>(fieldname, word)\<close> and for \<open>(fieldnum, word)\<close>.
\<close>

record reader =
  fieldname_to_num :: "string \<Rightarrow> error + nat"
  contains_name :: "string \<times> string \<Rightarrow> bool"
  contains_num :: "nat \<times> string \<Rightarrow> bool"
  expand_prefix :: "string \<Rightarrow> string \<Rightarrow> string list"
  lexicon :: "string \<Rightarrow> string list"
  iter_from :: "nat \<Rightarrow> string \<Rightarrow> (nat \<times> string) list"
  doc_frequency :: "nat \<Rightarrow> string \<Rightarrow> int"
  doc_count :: int
  doc_count_all :: nat
  is_deleted :: "nat \<Rightarrow> bool"

text \<open>
  A \<open>BitVector\<close> of document numbers, as the set of the numbers whose bit is set.
\<close>

type_synonym bitvector = "nat set"

text \<open>
  The matchers of \<open>whoosh.matching\<close> that \<open>query.py\<close> constructs, as terms: the module
  is not among the sources, and no claim depends on how a matcher runs.
  \<open>PostingMatcher\<close> stands for what \<open>searcher.postings\<close> returns.
\<close>

datatype Matcher =
    NullMatcher
  | PostingMatcher "nat list"
  | IntersectionMatcher Matcher Matcher
  | UnionMatcher Matcher Matcher
  | DisjunctionMaxMatcher Matcher Matcher
  | WrappingMatcher Matcher real
  | InverseMatcher Matcher nat "nat \<Rightarrow> bool"
  | EveryMatcher nat "nat set"
  | RequireMatcher Matcher Matcher
  | AndMaybeMatcher Matcher Matcher
  | PostingPhraseMatcher "Matcher list" Matcher int
  | VectorPhraseMatcher nat "string list" Matcher int

datatype matchercls = IntersectionMatcherC | UnionMatcherC | DisjunctionMaxMatcherC

text \<open>
  A searcher answers the reader's calls itself (\<open>estimate_size\<close> is handed the
  searcher where it expects a reader) and has \<open>reader()\<close>, \<open>postings\<close>, which raises
  \<open>TermNotFound\<close> for an unknown term, and \<open>field(fieldnum)\<close>, of which
  \<open>Phrase.matcher\<close> asks whether the format or the vector supports positions.
\<close>

record searcher = reader +
  s_reader :: reader
  postings :: "nat \<Rightarrow> string \<Rightarrow> bitvector option \<Rightarrow> error + Matcher"
  format_positions :: "nat \<Rightarrow> bool"
  vector_positions :: "nat \<Rightarrow> bool"

text \<open>
  Functions of modules that are not among the sources, taken as parameters:
  \<open>fnmatch p s\<close> says whether the compiled \<open>fnmatch.translate(p)\<close> matches \<open>s\<close>;
  \<open>relative\<close> is \<open>whoosh.support.levenshtein.relative\<close>; \<open>variations\<close> is
  \<open>whoosh.lang.morph_en.variations\<close>; \<open>make_tree\<close> and \<open>all_ids\<close> are those of
  \<open>whoosh.matching\<close>; \<open>or_matchers ms b\<close> is the result of
  \<open>Or(ms, boost=b).matcher(searcher)\<close> for a list \<open>ms\<close> of matcher objects, which
  depends on the attributes that matcher objects have.
\<close>

record lib =
  fnmatch :: "string \<Rightarrow> string \<Rightarrow> bool"
  relative :: "string \<Rightarrow> string \<Rightarrow> real"
  variations :: "string \<Rightarrow> string list"
  make_tree :: "matchercls \<Rightarrow> Matcher list \<Rightarrow> Matcher"
  all_ids :: "Matcher \<Rightarrow> nat list"
  or_matchers :: "Matcher list \<Rightarrow> real \<Rightarrow> error + Matcher"

subsection \<open>The words of a multi-term query\<close>

text \<open>\<open>text[:n]\<close> for a Python integer \<open>n\<close>.\<close>

definition slice_to :: "string \<Rightarrow> int \<Rightarrow> string" where
  "slice_to text n =
     (if 0 \<le> n then take (nat n) text else take (nat (int (length text) + n)) text)"

text \<open>
  The attribute \<open>prefix\<close> that \<open>Wildcard.__init__\<close> computes: the text before the first
  wildcard character.
\<close>

definition wildcard_prefix :: "string \<Rightarrow> string" where
  "wildcard_prefix text =
     (let qm = str_find text CHR ''?''; st = str_find text CHR ''*''
      in if qm < 0 \<and> st < 0 then ''''
         else if qm < 0 then slice_to text st
         else if st < 0 then slice_to text qm
         else slice_to text (min st qm))"

text \<open>The loop of \<open>TermRange._words\<close> over the tuples of \<open>iter_from\<close>.\<close>

fun range_words ::
  "nat \<Rightarrow> string \<Rightarrow> string \<Rightarrow> bool \<Rightarrow> bool \<Rightarrow> (nat \<times> string) list \<Rightarrow> string list" where
  "range_words fieldnum start end startexcl endexcl [] = []"
| "range_words fieldnum start end startexcl endexcl ((fnum, t) # rest) =
     (if fnum \<noteq> fieldnum then []
      else if t = start \<and> startexcl
           then range_words fieldnum start end startexcl endexcl rest
      else if t = end \<and> endexcl then []
      else if t > end then []
      else t # range_words fieldnum start end startexcl endexcl rest)"

text \<open>
  \<open>q._words(ixreader)\<close>. \<open>Phrase\<close> inherits the method of \<open>MultiTerm\<close>, which raises
  \<open>NotImplementedError\<close>; the other classes have no such method.
\<close>

fun words :: "lib \<Rightarrow> 'a reader_scheme \<Rightarrow> query \<Rightarrow> error + string list" where
  "words L R (Prefix f t b) = Inr (expand_prefix R f t)"
| "words L R (Wildcard f t b) =
     (let candidates = (if wildcard_prefix t \<noteq> '''' then expand_prefix R f (wildcard_prefix t)
                        else lexicon R f)
      in Inr (filter (fnmatch L t) candidates))"
| "words L R (FuzzyTerm f t b minsim prefixlength) =
     Inr (filter (\<lambda>term. t = term \<or> relative L t term > minsim)
            (expand_prefix R f (slice_to t prefixlength)))"
| "words L R (TermRange f start end startexcl endexcl b) =
     (case fieldname_to_num R f of
        Inl e \<Rightarrow> Inl e
      | Inr fieldnum \<Rightarrow>
          Inr (range_words fieldnum start end startexcl endexcl (iter_from R fieldnum start)))"
| "words L R (Variations f t b) =
     Inr (filter (\<lambda>word. contains_name R (f, word)) (variations L t))"
| "words L R (Phrase f ws sl b) = Inl NotImplementedError"
| "words L R q = Inl AttributeError"

subsection \<open>Simplification\<close>

fun is_Not :: "query \<Rightarrow> bool" where
  "is_Not (Not q b) = True"
| "is_Not q = False"

fun Not_query :: "query \<Rightarrow> query" where
  "Not_query (Not q b) = q"
| "Not_query q = q"

text \<open>\<open>CompoundQuery._split_queries\<close>.\<close>

definition split_queries :: "query list \<Rightarrow> query list \<times> query list" where
  "split_queries qs =
     (filter (\<lambda>q. \<not> is_Not q) qs, map Not_query (filter is_Not qs))"

text \<open>
  \<open>MultiTerm.simplify\<close>: an \<open>Or\<close> of one \<open>Term\<close> for each word, each with the boost
  of the query.
\<close>

definition MultiTerm_simplify ::
  "lib \<Rightarrow> 'a reader_scheme \<Rightarrow> query \<Rightarrow> string \<Rightarrow> real \<Rightarrow> error + query" where
  "MultiTerm_simplify L R q f b =
     (case words L R q of
        Inl e \<Rightarrow> Inl e
      | Inr ws \<Rightarrow> Inr (Or (map (\<lambda>word. Term f word b) ws) 1 0))"

text \<open>
  The call \<open>.simplify()\<close> in \<open>CompoundQuery.simplify\<close> passes no arguments. Every
  \<open>simplify\<close> of the module (of \<open>Query\<close>, \<open>CompoundQuery\<close>, \<open>MultiTerm\<close> and
  \<open>NullQuery\<close>) has the required parameter \<open>ixreader\<close>, so the call raises \<open>TypeError\<close>
  whatever the receiver is.
\<close>

definition simplify_no_reader :: "query \<Rightarrow> error + query" where
  "simplify_no_reader q = Inl TypeError"

text \<open>
  \<open>self.__class__(subs, boost=self.boost)\<close> in \<open>CompoundQuery.simplify\<close>. \<open>Require\<close> and
  \<open>AndMaybe\<close> inherit the method; their constructors take two queries, so the call with
  one list raises \<open>TypeError\<close>.
\<close>

datatype ccls = CAnd | COr | CDisjunctionMax | CRequire | CAndMaybe

fun construct_compound :: "ccls \<Rightarrow> query list \<Rightarrow> real \<Rightarrow> error + query" where
  "construct_compound CAnd qs b = Inr (And qs b)"
| "construct_compound COr qs b = Inr (Or qs b 0)"
| "construct_compound CDisjunctionMax qs b = Inr (DisjunctionMax qs b 0)"
| "construct_compound CRequire qs b = Inl TypeError"
| "construct_compound CAndMaybe qs b = Inl TypeError"

text \<open>
  The part of \<open>CompoundQuery.simplify\<close> after the positive subqueries have been
  simplified: \<open>subs\<close> holds their results, \<open>nots\<close> the queries under the \<open>Not\<close>
  children. \<open>Or(nots)\<close> and \<open>AndNot(subs, nots)\<close> take the default boost.
\<close>

definition simplify_compound ::
  "ccls \<Rightarrow> real \<Rightarrow> (error + query) list \<Rightarrow> query list \<Rightarrow> error + query" where
  "simplify_compound c b subs nots =
     (if subs \<noteq> [] then
        (case collect subs of
           Inl e \<Rightarrow> Inl e
         | Inr subs' \<Rightarrow>
             (case construct_compound c subs' b of
                Inl e \<Rightarrow> Inl e
              | Inr subsq \<Rightarrow>
                  if nots \<noteq> [] then
                    (case simplify_no_reader (normalize (Or nots 1 0)) of
                       Inl e \<Rightarrow> Inl e
                     | Inr nots' \<Rightarrow> Inr (AndNot subsq nots' 1))
                  else Inr subsq))
      else Inr NullQuery)"

text \<open>
  \<open>simplify\<close>: \<open>Query.simplify\<close> returns the query itself (\<open>Term\<close>, \<open>Not\<close>, \<open>AndNot\<close> and
  \<open>Every\<close> inherit it), the multi-term classes expand, the compound classes split.
\<close>

fun simplify :: "lib \<Rightarrow> 'a reader_scheme \<Rightarrow> query \<Rightarrow> error + query" where
  "simplify L R (And qs b) =
     simplify_compound CAnd b
       (map (simplify L R) (filter (\<lambda>q. \<not> is_Not q) qs)) (snd (split_queries qs))"
| "simplify L R (Or qs b m) =
     simplify_compound COr b
       (map (simplify L R) (filter (\<lambda>q. \<not> is_Not q) qs)) (snd (split_queries qs))"
| "simplify L R (DisjunctionMax qs b t) =
     simplify_compound CDisjunctionMax b
       (map (simplify L R) (filter (\<lambda>q. \<not> is_Not q) qs)) (snd (split_queries qs))"
| "simplify L R (Require a r b) =
     simplify_compound CRequire b
       ((if is_Not a then [] else [simplify L R a]) @ (if is_Not r then [] else [simplify L R r]))
       (snd (split_queries [a, r]))"
| "simplify L R (AndMaybe a r b) =
     simplify_compound CAndMaybe b
       ((if is_Not a then [] else [simplify L R a]) @ (if is_Not r then [] else [simplify L R r]))
       (snd (split_queries [a, r]))"
| "simplify L R (Prefix f t b) = MultiTerm_simplify L R (Prefix f t b) f b"
| "simplify L R (Wildcard f t b) = MultiTerm_simplify L R (Wildcard f t b) f b"
| "simplify L R (FuzzyTerm f t b ms pl) = MultiTerm_simplify L R (FuzzyTerm f t b ms pl) f b"
| "simplify L R (TermRange f s e sx ex b) = MultiTerm_simplify L R (TermRange f s e sx ex b) f b"
| "simplify L R (Variations f t b) = MultiTerm_simplify L R (Variations f t b) f b"
| "simplify L R (Phrase f ws sl b) = MultiTerm_simplify L R (Phrase f ws sl b) f b"
| "simplify L R (Term f t b) = Inr (Term f t b)"
| "simplify L R (Not q b) = Inr (Not q b)"
| "simplify L R (AndNot p n b) = Inr (AndNot p n b)"
| "simplify L R (Every b) = Inr (Every b)"
| "simplify L R NullQuery = Inr NullQuery"

subsection \<open>Size estimates\<close>

text \<open>
  \<open>estimate_size\<close>. \<open>MultiTerm.estimate_size\<close> sums the document frequencies of the words;
  \<open>And\<close> takes the minimum over its subqueries, and \<open>min\<close> of no value raises
  \<open>ValueError\<close>; \<open>Phrase\<close> estimates the \<open>And\<close> of its words as terms.
  \<open>DisjunctionMax.estimate_size\<close> calls \<open>Or.estimate_size(self, ixreader)\<close>, the method
  of a class that \<open>DisjunctionMax\<close> does not derive from, which Python 2 refuses with
  \<open>TypeError\<close>. \<open>Require\<close>, \<open>AndMaybe\<close> and \<open>AndNot\<close> inherit \<open>Query.estimate_size\<close>,
  which raises \<open>NotImplementedError\<close>.
\<close>

definition MultiTerm_estimate_size ::
  "lib \<Rightarrow> 'a reader_scheme \<Rightarrow> query \<Rightarrow> string \<Rightarrow> error + int" where
  "MultiTerm_estimate_size L R q f =
     (case fieldname_to_num R f of
        Inl e \<Rightarrow> Inl e
      | Inr fieldnum \<Rightarrow>
          (case words L R q of
             Inl e \<Rightarrow> Inl e
           | Inr ws \<Rightarrow> Inr (sum_list (map (doc_frequency R fieldnum) ws))))"

definition Term_estimate_size :: "'a reader_scheme \<Rightarrow> string \<Rightarrow> string \<Rightarrow> error + int" where
  "Term_estimate_size R f t =
     (case fieldname_to_num R f of
        Inl e \<Rightarrow> Inl e
      | Inr fieldnum \<Rightarrow> Inr (doc_frequency R fieldnum t))"

definition min_estimate :: "(error + int) list \<Rightarrow> error + int" where
  "min_estimate xs =
     (case collect xs of
        Inl e \<Rightarrow> Inl e
      | Inr ns \<Rightarrow> if ns = [] then Inl ValueError else Inr (py_min ns))"

fun estimate_size :: "lib \<Rightarrow> 'a reader_scheme \<Rightarrow> query \<Rightarrow> error + int" where
  "estimate_size L R (Term f t b) = Term_estimate_size R f t"
| "estimate_size L R (And qs b) = min_estimate (map (estimate_size L R) qs)"
| "estimate_size L R (Or qs b m) =
     (case collect (map (estimate_size L R) qs) of
        Inl e \<Rightarrow> Inl e
      | Inr ns \<Rightarrow> Inr (sum_list ns))"
| "estimate_size L R (DisjunctionMax qs b t) = Inl TypeError"
| "estimate_size L R (Not q b) = Inr (doc_count R)"
| "estimate_size L R (Prefix f t b) = MultiTerm_estimate_size L R (Prefix f t b) f"
| "estimate_size L R (Wildcard f t b) = MultiTerm_estimate_size L R (Wildcard f t b) f"
| "estimate_size L R (FuzzyTerm f t b ms pl) =
     MultiTerm_estimate_size L R (FuzzyTerm f t b ms pl) f"
| "estimate_size L R (TermRange f s e sx ex b) =
     MultiTerm_estimate_size L R (TermRange f s e sx ex b) f"
| "estimate_size L R (Variations f t b) = MultiTerm_estimate_size L R (Variations f t b) f"
| "estimate_size L R (Phrase f ws sl b) = min_estimate (map (Term_estimate_size R f) ws)"
| "estimate_size L R (Every b) = Inr (doc_count R)"
| "estimate_size L R NullQuery = Inr 0"
| "estimate_size L R (Require a r b) = Inl NotImplementedError"
| "estimate_size L R (AndMaybe a r b) = Inl NotImplementedError"
| "estimate_size L R (AndNot p n b) = Inl NotImplementedError"

subsection \<open>Matchers\<close>

text \<open>
  \<open>Term.matcher\<close>: the lookup of the field number is outside the \<open>try\<close>; a
  \<open>TermNotFound\<close> of \<open>searcher.postings\<close> becomes a \<open>NullMatcher\<close>.
\<close>

definition Term_matcher ::
  "searcher \<Rightarrow> string \<Rightarrow> string \<Rightarrow> bitvector option \<Rightarrow> error + Matcher" where
  "Term_matcher S f t exclude_docs =
     (case fieldname_to_num S f of
        Inl e \<Rightarrow> Inl e
      | Inr fieldnum \<Rightarrow>
          (case postings S fieldnum t exclude_docs of
             Inl e \<Rightarrow> if e = TermNotFound then Inr NullMatcher else Inl e
           | Inr m \<Rightarrow> Inr m))"

text \<open>
  The loop of \<open>MultiTerm.matcher\<close> over the words, with the list \<open>matchers\<close> it
  fills: a word whose \<open>Term(fieldname, word).matcher(...)\<close> raises \<open>TermNotFound\<close> is
  passed over.
\<close>

fun MultiTerm_loop ::
  "searcher \<Rightarrow> string \<Rightarrow> string list \<Rightarrow> bitvector option \<Rightarrow> Matcher list
   \<Rightarrow> error + Matcher list" where
  "MultiTerm_loop S f [] exclude_docs matchers = Inr matchers"
| "MultiTerm_loop S f (word # rest) exclude_docs matchers =
     (case Term_matcher S f word exclude_docs of
        Inl e \<Rightarrow> if e = TermNotFound then MultiTerm_loop S f rest exclude_docs matchers
                 else Inl e
      | Inr q \<Rightarrow> MultiTerm_loop S f rest exclude_docs (matchers @ [q]))"

definition MultiTerm_matcher ::
  "lib \<Rightarrow> searcher \<Rightarrow> query \<Rightarrow> string \<Rightarrow> real \<Rightarrow> bitvector option \<Rightarrow> error + Matcher" where
  "MultiTerm_matcher L S q f b exclude_docs =
     (case words L (s_reader S) q of
        Inl e \<Rightarrow> Inl e
      | Inr ws \<Rightarrow>
          (case MultiTerm_loop S f ws exclude_docs [] of
             Inl e \<Rightarrow> Inl e
           | Inr matchers \<Rightarrow>
               if matchers \<noteq> [] then or_matchers L matchers b else Inr NullMatcher))"

text \<open>
  Modelled from the spec: \<open>make_tree\<close> of \<open>whoosh.matching\<close> is not among the sources;
  by the spec (4.9) it is \<open>make_tree(cls, matchers)\<close>. \<open>Phrase.matcher\<close> calls
  \<open>make_tree(wordmatchers)\<close>, one argument for two parameters, which raises
  \<open>TypeError\<close>.
\<close>

definition make_tree_one_argument :: "Matcher list \<Rightarrow> error + Matcher" where
  "make_tree_one_argument wordmatchers = Inl TypeError"

text \<open>
  \<open>Phrase.matcher\<close>: a \<open>NullMatcher\<close> as soon as one word is not in the searcher;
  otherwise the postings of every word, where \<open>TermNotFound\<close> is not caught.
\<close>

definition Phrase_matcher ::
  "searcher \<Rightarrow> string \<Rightarrow> string list \<Rightarrow> int \<Rightarrow> bitvector option \<Rightarrow> error + Matcher" where
  "Phrase_matcher S f ws slop exclude_docs =
     (case fieldname_to_num S f of
        Inl e \<Rightarrow> Inl e
      | Inr fieldnum \<Rightarrow>
          if \<exists>word \<in> set ws. \<not> contains_num S (fieldnum, word) then Inr NullMatcher
          else
            (case collect (map (\<lambda>word. postings S fieldnum word exclude_docs) ws) of
               Inl e \<Rightarrow> Inl e
             | Inr wordmatchers \<Rightarrow>
                 (case make_tree_one_argument wordmatchers of
                    Inl e \<Rightarrow> Inl e
                  | Inr isect \<Rightarrow>
                      if format_positions S fieldnum
                      then Inr (PostingPhraseMatcher wordmatchers isect slop)
                      else if vector_positions S fieldnum
                      then Inr (VectorPhraseMatcher fieldnum ws isect slop)
                      else Inl QueryError)))"

text \<open>
  \<open>_not_vector\<close>, given the results of \<open>nquery.docs(searcher)\<close> for the queries in
  \<open>notqueries\<close>: a copy of \<open>sourcevector\<close>, or a vector with no bit set, to which the
  documents of each are added.
\<close>

definition not_vector :: "bitvector option \<Rightarrow> nat list list \<Rightarrow> bitvector" where
  "not_vector sourcevector docs_of_notqueries =
     fold (\<lambda>ds nvector. nvector \<union> set ds) docs_of_notqueries
       (case sourcevector of None \<Rightarrow> {} | Some v \<Rightarrow> v)"

text \<open>
  \<open>subs.sort(key=...)\<close>, given the keys: Python's sort is stable, as \<open>sort_key\<close> is.
\<close>

definition sort_by_keys :: "int list \<Rightarrow> 'a list \<Rightarrow> 'a list" where
  "sort_by_keys keys xs = map snd (sort_key fst (zip keys xs))"

text \<open>The end of \<open>CompoundQuery._matcher\<close>.\<close>

definition tree_matcher :: "lib \<Rightarrow> matchercls \<Rightarrow> real \<Rightarrow> Matcher list \<Rightarrow> Matcher" where
  "tree_matcher L matchercls b submatchers =
     (let tree = make_tree L matchercls submatchers
      in if b = 1 then tree else WrappingMatcher tree b)"

text \<open>
  \<open>Query.docs\<close>, given the result of the matcher construction in its \<open>try\<close>: the ids of
  the matcher, or the empty list for \<open>TermNotFound\<close>.
\<close>

definition Query_docs :: "lib \<Rightarrow> error + Matcher \<Rightarrow> error + nat list" where
  "Query_docs L m =
     (case m of
        Inl e \<Rightarrow> if e = TermNotFound then Inr [] else Inl e
      | Inr m' \<Rightarrow> Inr (all_ids L m'))"

text \<open>
  \<open>matcher\<close>, \<open>CompoundQuery._submatchers\<close> and \<open>docs\<close>. \<open>_submatchers\<close> first builds
  the exclusion vector from the documents of the negated subqueries, then sorts the
  positive subqueries by estimated size and builds their matchers in that order: the
  model builds the list of results in the order of the subqueries, sorts it by the same
  keys and takes the first exception in the sorted order. \<open>NullQuery\<close>, \<open>Require\<close> and
  \<open>AndMaybe\<close> override \<open>docs\<close>; \<open>Require.docs\<close> is \<open>Query.docs\<close> of the \<open>And\<close> of the
  two subqueries. \<open>Not.matcher\<close> builds the matcher of its query with no exclusions.
\<close>

function (sequential)
      matcher :: "lib \<Rightarrow> searcher \<Rightarrow> query \<Rightarrow> bitvector option \<Rightarrow> error + Matcher"
  and submatchers ::
        "lib \<Rightarrow> searcher \<Rightarrow> query list \<Rightarrow> bitvector option \<Rightarrow> error + Matcher list"
  and docs :: "lib \<Rightarrow> searcher \<Rightarrow> query \<Rightarrow> bitvector option \<Rightarrow> error + nat list"
where
  "matcher L S (Term f t b) exclude_docs = Term_matcher S f t exclude_docs"
| "matcher L S (And qs b) exclude_docs =
     (case submatchers L S qs exclude_docs of
        Inl e \<Rightarrow> Inl e
      | Inr ms \<Rightarrow> Inr (tree_matcher L IntersectionMatcherC b ms))"
| "matcher L S (Or qs b m) exclude_docs =
     (case submatchers L S qs exclude_docs of
        Inl e \<Rightarrow> Inl e
      | Inr ms \<Rightarrow> Inr (tree_matcher L UnionMatcherC b ms))"
| "matcher L S (DisjunctionMax qs b t) exclude_docs =
     (case submatchers L S qs exclude_docs of
        Inl e \<Rightarrow> Inl e
      | Inr ms \<Rightarrow> Inr (tree_matcher L DisjunctionMaxMatcherC b ms))"
| "matcher L S (Not q b) exclude_docs =
     (case matcher L S q None of
        Inl e \<Rightarrow> Inl e
      | Inr child \<Rightarrow>
          Inr (InverseMatcher child (doc_count_all (s_reader S)) (is_deleted (s_reader S))))"
| "matcher L S (Prefix f t b) exclude_docs =
     MultiTerm_matcher L S (Prefix f t b) f b exclude_docs"
| "matcher L S (Wildcard f t b) exclude_docs =
     MultiTerm_matcher L S (Wildcard f t b) f b exclude_docs"
| "matcher L S (FuzzyTerm f t b ms pl) exclude_docs =
     MultiTerm_matcher L S (FuzzyTerm f t b ms pl) f b exclude_docs"
| "matcher L S (TermRange f s e sx ex b) exclude_docs =
     MultiTerm_matcher L S (TermRange f s e sx ex b) f b exclude_docs"
| "matcher L S (Variations f t b) exclude_docs =
     MultiTerm_matcher L S (Variations f t b) f b exclude_docs"
| "matcher L S (Phrase f ws sl b) exclude_docs = Phrase_matcher S f ws sl exclude_docs"
| "matcher L S (Every b) exclude_docs =
     Inr (EveryMatcher (doc_count_all (s_reader S))
            (case exclude_docs of None \<Rightarrow> {} | Some v \<Rightarrow> v))"
| "matcher L S NullQuery exclude_docs = Inr NullMatcher"
| "matcher L S (Require scored required b) exclude_docs =
     (case matcher L S scored exclude_docs of
        Inl e \<Rightarrow> Inl e
      | Inr sm \<Rightarrow>
          (case matcher L S required exclude_docs of
             Inl e \<Rightarrow> Inl e
           | Inr rm \<Rightarrow> Inr (RequireMatcher sm rm)))"
| "matcher L S (AndMaybe required optional b) exclude_docs =
     (case matcher L S required exclude_docs of
        Inl e \<Rightarrow> Inl e
      | Inr rm \<Rightarrow>
          (case matcher L S optional exclude_docs of
             Inl e \<Rightarrow> Inl e
           | Inr om \<Rightarrow> Inr (AndMaybeMatcher rm om)))"
| "matcher L S (AndNot positive negative b) exclude_docs =
     (case docs L S negative None of
        Inl e \<Rightarrow> Inl e
      | Inr ds \<Rightarrow> matcher L S positive (Some (not_vector exclude_docs [ds])))"
| "submatchers L S qs exclude_docs =
     (case collect (map (\<lambda>nquery. docs L S nquery None) (snd (split_queries qs))) of
        Inl e \<Rightarrow> Inl e
      | Inr dss \<Rightarrow>
          (case collect (map (estimate_size L S) (fst (split_queries qs))) of
             Inl e \<Rightarrow> Inl e
           | Inr keys \<Rightarrow>
               collect (sort_by_keys keys
                          (map (\<lambda>subquery.
                                  matcher L S subquery (Some (not_vector exclude_docs dss)))
                               (fst (split_queries qs))))))"
| "docs L S NullQuery exclude_docs = Inr []"
| "docs L S (Require scored required b) exclude_docs =
     Query_docs L
       (case submatchers L S [scored, required] exclude_docs of
          Inl e \<Rightarrow> Inl e
        | Inr ms \<Rightarrow> Inr (tree_matcher L IntersectionMatcherC 1 ms))"
| "docs L S (AndMaybe required optional b) exclude_docs = docs L S required exclude_docs"
| "docs L S q exclude_docs = Query_docs L (matcher L S q exclude_docs)"
  by pat_completeness auto
termination
proof -
  have A: "sum_list (map size qs) < Suc (size_list size qs)" for qs :: "query list"
    by (induction qs) auto
  have B: "size x < sum_list (map size qs)" if "x \<in> set (snd (split_queries qs))"
    for x and qs :: "query list"
    using that
  proof (induction qs)
    case Nil
    then show ?case by (simp add: split_queries_def)
  next
    case (Cons q qs)
    then show ?case by (cases q) (auto simp: split_queries_def)
  qed
  have C: "size x \<le> sum_list (map size qs)" if "x \<in> set (fst (split_queries qs))"
    for x and qs :: "query list"
    using that by (induction qs) (auto simp: split_queries_def split: if_splits)
  show ?thesis
    apply (relation "measures
       [\<lambda>x. case x of Inl (L, S, q, e) \<Rightarrow> size q
                 | Inr (Inl (L, S, qs, e)) \<Rightarrow> sum_list (map size qs)
                 | Inr (Inr (L, S, q, e)) \<Rightarrow> size q,
        \<lambda>x. case x of Inl _ \<Rightarrow> 0 | Inr (Inl _) \<Rightarrow> 1 | Inr (Inr _) \<Rightarrow> (2::nat)]")
    apply (auto simp: A B dest: C)
    done
qed


section \<open>Example inputs\<close>







section \<open>Properties of normalization\<close>

subsection \<open>Strings\<close>





subsection \<open>Wildcard normalization\<close>



subsection \<open>Null absorption in the binary queries\<close>


subsection \<open>One pass of normalization\<close>

text \<open>Every result of \<open>normalize\<close> has the shape \<open>flat\<close>.\<close>

lemma flat_subqueries:
  "flat s \<Longrightarrow> is_instance c s \<Longrightarrow> (\<forall>q \<in> set (subqueries s). child_ok c q) \<and> 2 \<le> length (subqueries s)"
  by (cases c; cases s) (auto simp: child_ok_def)

lemma normalize_loop_ok:
  "\<forall>x \<in> set xs. flat x \<Longrightarrow> \<forall>q \<in> set acc. child_ok c q
   \<Longrightarrow> \<forall>q \<in> set (normalize_loop c xs seen acc). child_ok c q"
proof (induction xs arbitrary: seen acc)
  case Nil
  then show ?case by simp
next
  case (Cons s rest)
  have rest: "\<forall>x \<in> set rest. flat x" using Cons.prems(1) by simp
  have s: "flat s" using Cons.prems(1) by simp
  show ?case
  proof (cases "s = NullQuery \<or> (is_Term s \<and> term_key s \<in> seen)")
    case True
    then show ?thesis using Cons.IH[OF rest Cons.prems(2)] by auto
  next
    case False
    show ?thesis
    proof (cases "is_instance c s")
      case True
      then have "\<forall>q \<in> set (acc @ subqueries s). child_ok c q"
        using flat_subqueries[OF s True] Cons.prems(2) by auto
      from Cons.IH[OF rest this] False True show ?thesis by (auto simp: Let_def)
    next
      case inst: False
      then have "\<forall>q \<in> set (acc @ [s]). child_ok c q"
        using s False Cons.prems(2) by (auto simp: child_ok_def)
      from Cons.IH[OF rest this] False inst show ?thesis by (auto simp: Let_def)
    qed
  qed
qed

lemma flat_construct:
  "2 \<le> length qs \<Longrightarrow> \<forall>q \<in> set qs. child_ok c q \<Longrightarrow> flat (construct c qs b)"
  by (cases c) (auto simp: child_ok_def)

lemma flat_normalize_result:
  assumes "\<forall>q \<in> set qs. child_ok c q"
  shows "flat (normalize_result c b qs)"
proof -
  consider "qs = []" | "length qs = 1" | "2 \<le> length qs" by (cases qs) (auto simp: Suc_le_eq)
  then show ?thesis
  proof cases
    case 1
    then show ?thesis by (simp add: normalize_result_def)
  next
    case 2
    then obtain q where "qs = [q]" by (cases qs) auto
    with assms show ?thesis by (simp add: normalize_result_def child_ok_def)
  next
    case 3
    then have "normalize_result c b qs = construct c qs b"
      by (auto simp: normalize_result_def)
    with 3 assms show ?thesis by (simp add: flat_construct)
  qed
qed

lemma not_instance_normalize_result:
  assumes "\<forall>q \<in> set qs. child_ok c q" "length qs = 1"
  shows "\<not> is_instance c (normalize_result c b qs)"
proof -
  from assms(2) obtain q where "qs = [q]" by (cases qs) auto
  with assms(1) show ?thesis by (simp add: normalize_result_def child_ok_def)
qed

lemma flat_set_minmatch: "flat n \<Longrightarrow> flat (set_minmatch n m)"
  by (cases n) auto

lemma flat_set_tiebreak: "flat n \<Longrightarrow> flat (set_tiebreak n t)"
  by (cases n) auto

lemma flat_compound:
  assumes "\<And>x. x \<in> set qs \<Longrightarrow> flat (normalize x)"
  shows "flat (normalize_result c b (normalize_subqs c qs))"
proof -
  have "\<forall>q \<in> set (normalize_subqs c qs). child_ok c q"
    unfolding normalize_subqs_def by (rule normalize_loop_ok) (use assms in auto)
  then show ?thesis by (rule flat_normalize_result)
qed

lemma normalize_subqs_Nil:
  "filter (\<lambda>q. q \<noteq> NullQuery) qs = [] \<Longrightarrow> normalize_result c b (normalize_subqs c qs) = NullQuery"
  by (simp add: normalize_subqs_def normalize_result_def)

lemma normalize_And:
  "normalize (And qs b) = normalize_result AndC b (normalize_subqs AndC qs)"
proof (cases "filter (\<lambda>q. q \<noteq> NullQuery) qs = []")
  case True
  then show ?thesis by (simp add: normalize_subqs_Nil)
next
  case False
  then show ?thesis by (simp add: normalize_subqs_def)
qed

lemma normalize_Or:
  "normalize (Or qs b m) = set_minmatch (normalize_result OrC b (normalize_subqs OrC qs)) m"
proof (cases "filter (\<lambda>q. q \<noteq> NullQuery) qs = []")
  case True
  then show ?thesis by (simp add: normalize_subqs_Nil)
next
  case False
  then show ?thesis by (simp add: normalize_subqs_def)
qed

lemma normalize_DisjunctionMax:
  "normalize (DisjunctionMax qs b t) =
     set_tiebreak (normalize_result DisjunctionMaxC b (normalize_subqs DisjunctionMaxC qs)) t"
proof (cases "filter (\<lambda>q. q \<noteq> NullQuery) qs = []")
  case True
  then show ?thesis by (simp add: normalize_subqs_Nil)
next
  case False
  then show ?thesis by (simp add: normalize_subqs_def)
qed

lemma flat_normalize: "flat (normalize q)"
proof (induction q)
  case (And qs b)
  then show ?case unfolding normalize_And by (intro flat_compound) 
next
  case (Or qs b m)
  then show ?case unfolding normalize_Or by (intro flat_set_minmatch flat_compound)
next
  case (DisjunctionMax qs b t)
  then show ?case unfolding normalize_DisjunctionMax by (intro flat_set_tiebreak flat_compound)
next
  case (Wildcard f t b)
  have "normalize (Wildcard f t b) \<in> {Every b, Term f t b, Prefix f (butlast t) b, Wildcard f t b}"
    by simp
  then consider "normalize (Wildcard f t b) = Wildcard f t b"
    | "normalize (Wildcard f t b) \<in> {Every b, Term f t b, Prefix f (butlast t) b}"
    by blast
  then show ?case
  proof cases
    case 1
    then have "flat (Wildcard f t b)" by (simp only: flat.simps)
    with 1 show ?thesis by simp
  next
    case 2
    then show ?thesis by auto
  qed
next
  case (Phrase f ws sl b)
  have "ws = [] \<or> length ws = 1 \<or> 2 \<le> length ws" by (cases ws) (auto simp: Suc_le_eq)
  then show ?case by auto
qed (auto simp: Let_def)

subsection \<open>Fixed points of normalization\<close>

text \<open>
  On a list without \<open>NullQuery\<close>, without a member of the compound's own class and
  without a repeated term, the loop copies the list.
\<close>

lemma normalize_loop_id:
  "\<forall>x \<in> set xs. x \<noteq> NullQuery \<and> \<not> is_instance c x
   \<Longrightarrow> distinct (map term_key (filter is_Term xs))
   \<Longrightarrow> \<forall>x \<in> set xs. is_Term x \<longrightarrow> term_key x \<notin> seen
   \<Longrightarrow> normalize_loop c xs seen acc = acc @ xs"
proof (induction xs arbitrary: seen acc)
  case Nil
  then show ?case by simp
next
  case (Cons s rest)
  let ?seen = "if is_Term s then insert (term_key s) seen else seen"
  have 1: "\<forall>x \<in> set rest. x \<noteq> NullQuery \<and> \<not> is_instance c x" using Cons.prems(1) by simp
  have 2: "distinct (map term_key (filter is_Term rest))"
    using Cons.prems(2) by (auto split: if_splits)
  have 3: "\<forall>x \<in> set rest. is_Term x \<longrightarrow> term_key x \<notin> ?seen"
  proof (intro ballI impI)
    fix x assume x: "x \<in> set rest" "is_Term x"
    then have "term_key x \<in> set (map term_key (filter is_Term rest))" by simp
    moreover have "is_Term s \<Longrightarrow> term_key s \<notin> set (map term_key (filter is_Term rest))"
      using Cons.prems(2) by simp
    moreover have "term_key x \<notin> seen" using Cons.prems(3) x by simp
    ultimately show "term_key x \<notin> ?seen" by auto
  qed
  have "normalize_loop c (s # rest) seen acc = normalize_loop c rest ?seen (acc @ [s])"
    using Cons.prems(1,3) by (auto simp: Let_def)
  also have "\<dots> = (acc @ [s]) @ rest" by (rule Cons.IH[OF 1 2 3])
  finally show ?case by simp
qed

lemma normalize_subqs_fixed:
  assumes "\<forall>x \<in> set qs. x \<noteq> NullQuery \<and> \<not> is_instance c x"
    and "distinct (map term_key (filter is_Term qs))"
    and "\<And>x. x \<in> set qs \<Longrightarrow> normalize x = x"
  shows "normalize_subqs c qs = qs"
proof -
  have f: "filter (\<lambda>q. q \<noteq> NullQuery) qs = qs" using assms(1) by (simp add: filter_id_conv)
  have m: "map normalize qs = qs" using assms(3) by (simp add: map_idI)
  show ?thesis unfolding normalize_subqs_def f m
    using normalize_loop_id[OF assms(1,2), of "{}" "[]"] by simp
qed

lemma normalize_result_many: "2 \<le> length qs \<Longrightarrow> normalize_result c b qs = construct c qs b"
  by (auto simp: normalize_result_def)

lemma normalize_fixed: "flat q \<Longrightarrow> distinct_terms q \<Longrightarrow> normalize q = q"
proof (induction q)
  case (And qs b)
  have "normalize_subqs AndC qs = qs"
    by (rule normalize_subqs_fixed) (use And in auto)
  with And.prems show ?case by (simp only: normalize_And flat.simps normalize_result_many construct.simps)
next
  case (Or qs b m)
  have "normalize_subqs OrC qs = qs"
    by (rule normalize_subqs_fixed) (use Or in auto)
  with Or.prems show ?case
    by (simp only: normalize_Or flat.simps normalize_result_many construct.simps set_minmatch.simps)
next
  case (DisjunctionMax qs b t)
  have "normalize_subqs DisjunctionMaxC qs = qs"
    by (rule normalize_subqs_fixed) (use DisjunctionMax in auto)
  with DisjunctionMax.prems show ?case
    by (simp only: normalize_DisjunctionMax flat.simps normalize_result_many construct.simps
        set_tiebreak.simps)
next
  case (Wildcard f t b)
  then show ?case by (simp only: flat.simps)
next
  case (Phrase f ws sl b)
  then show ?case by auto
qed (auto simp: Let_def)

subsection \<open>Idempotence\<close>

text \<open>
  Claim C1 says that \<open>normalize\<close> is idempotent, also for a compound whose nested
  compound of the same class repeats a sibling term. In the code the loop checks a term
  against \<open>seenterms\<close> only when the normalized child itself is a \<open>Term\<close>; the
  children of a nested compound of the same class are appended unchecked. For
  \<open>And([Term(f, a), And([Term(f, a), Term(f, b)])])\<close> the first pass gives
  \<open>And([Term(f, a), Term(f, a), Term(f, b)])\<close> and the second
  \<open>And([Term(f, a), Term(f, b)])\<close>.
\<close>

theorem normalize_not_idempotent:
  "normalize (normalize
     (And [Term ''f'' ''a'' 1, And [Term ''f'' ''a'' 1, Term ''f'' ''b'' 1] 1] 1))
   \<noteq> normalize (And [Term ''f'' ''a'' 1, And [Term ''f'' ''a'' 1, Term ''f'' ''b'' 1] 1] 1)"
  by (simp add: normalize_result_def)

text \<open>
  The repeated terms that the loop lets through are the only obstacle: whenever the
  normalized form has no \<open>And\<close>, \<open>Or\<close> or \<open>DisjunctionMax\<close> with two direct
  \<open>Term\<close> children of the same field name and text, a second pass changes nothing.
\<close>

lemma normalize_idempotent_distinct:
  "distinct_terms (normalize q) \<Longrightarrow> normalize (normalize q) = normalize q"
  by (rule normalize_fixed[OF flat_normalize])

lemma normalize_idempotent_distinct_example:
  "distinct_terms (normalize
     (And [Term ''f'' ''a'' 1, And [Term ''f'' ''b'' 1, Term ''f'' ''c'' 1] 1] 1))
   \<and> normalize (normalize
        (And [Term ''f'' ''a'' 1, And [Term ''f'' ''b'' 1, Term ''f'' ''c'' 1] 1] 1))
     = normalize (And [Term ''f'' ''a'' 1, And [Term ''f'' ''b'' 1, Term ''f'' ''c'' 1] 1] 1)"
proof -
  have h: "distinct_terms (normalize
     (And [Term ''f'' ''a'' 1, And [Term ''f'' ''b'' 1, Term ''f'' ''c'' 1] 1] 1))"
    by (simp add: normalize_result_def)
  from h normalize_idempotent_distinct[OF h] show ?thesis by blast
qed

subsection \<open>A compound with one surviving child\<close>

lemma normalize_loop_length: "length acc \<le> length (normalize_loop c xs seen acc)"
proof (induction xs arbitrary: seen acc)
  case Nil
  then show ?case by simp
next
  case (Cons s rest)
  obtain seen' acc' where
    eq: "normalize_loop c (s # rest) seen acc = normalize_loop c rest seen' acc'"
    and le: "length acc \<le> length acc'"
    by (cases "s = NullQuery \<or> (is_Term s \<and> term_key s \<in> seen)"; cases "is_instance c s")
      (auto simp: Let_def)
  from le Cons.IH[of acc' seen'] show ?case unfolding eq by (rule order_trans)
qed

lemma normalize_loop_origin:
  "\<forall>x \<in> set xs. flat x
   \<Longrightarrow> e \<in> set (normalize_loop c xs seen acc)
   \<Longrightarrow> e \<in> set acc \<or> e \<in> set xs \<or> length acc + 2 \<le> length (normalize_loop c xs seen acc)"
proof (induction xs arbitrary: seen acc)
  case Nil
  then show ?case by simp
next
  case (Cons s rest)
  have rest: "\<forall>x \<in> set rest. flat x" using Cons.prems(1) by simp
  have s: "flat s" using Cons.prems(1) by simp
  show ?case
  proof (cases "s = NullQuery \<or> (is_Term s \<and> term_key s \<in> seen)")
    case True
    then have "normalize_loop c (s # rest) seen acc = normalize_loop c rest seen acc" by auto
    with Cons.IH[OF rest, of seen acc] Cons.prems(2) show ?thesis by auto
  next
    case False
    let ?seen = "if is_Term s then insert (term_key s) seen else seen"
    show ?thesis
    proof (cases "is_instance c s")
      case True
      with False have eq: "normalize_loop c (s # rest) seen acc = normalize_loop c rest ?seen (acc @ subqueries s)"
        by (auto simp: Let_def)
      have "length acc + 2 \<le> length (acc @ subqueries s)"
        using flat_subqueries[OF s True] by simp
      also have "\<dots> \<le> length (normalize_loop c rest ?seen (acc @ subqueries s))"
        by (rule normalize_loop_length)
      finally show ?thesis unfolding eq by blast
    next
      case inst: False
      with False have eq: "normalize_loop c (s # rest) seen acc = normalize_loop c rest ?seen (acc @ [s])"
        by (auto simp: Let_def)
      from Cons.prems(2) have "e \<in> set (normalize_loop c rest ?seen (acc @ [s]))" unfolding eq .
      from Cons.IH[OF rest this] show ?thesis unfolding eq by auto
    qed
  qed
qed

lemma sole_survivor:
  assumes "normalize_subqs c qs = [s]"
  shows "\<not> is_instance c s \<and> s \<in> normalize ` set qs \<and> normalize_result c b (normalize_subqs c qs) = s"
proof -
  let ?xs = "map normalize (filter (\<lambda>q. q \<noteq> NullQuery) qs)"
  have fl: "\<forall>x \<in> set ?xs. flat x" by (simp add: flat_normalize)
  have "\<forall>q \<in> set (normalize_loop c ?xs {} []). child_ok c q"
    by (rule normalize_loop_ok[OF fl]) simp
  with assms have 1: "\<not> is_instance c s" by (simp add: normalize_subqs_def child_ok_def)
  have "s \<in> set (normalize_loop c ?xs {} [])" using assms by (simp add: normalize_subqs_def)
  from normalize_loop_origin[OF fl this] assms have "s \<in> set ?xs"
    by (simp add: normalize_subqs_def)
  then have 2: "s \<in> normalize ` set qs" by auto
  from assms have 3: "normalize_result c b (normalize_subqs c qs) = s"
    by (simp add: normalize_result_def)
  from 1 2 3 show ?thesis by blast
qed

lemma set_minmatch_other: "\<not> is_instance OrC s \<Longrightarrow> set_minmatch s m = s"
  by (cases s) auto

lemma set_tiebreak_other: "\<not> is_instance DisjunctionMaxC s \<Longrightarrow> set_tiebreak s t = s"
  by (cases s) auto

text \<open>
  Claim C9. When the loop of \<open>CompoundQuery.normalize\<close> leaves exactly one child \<open>s\<close>
  for an \<open>And\<close>, \<open>Or\<close> or \<open>DisjunctionMax\<close>, \<open>normalize\<close> returns \<open>s\<close>, which is the
  normalized form of one of the subqueries: the boost \<open>b\<close>, the \<open>minmatch\<close> \<open>m\<close> of
  the \<open>Or\<close> and the \<open>tiebreak\<close> \<open>t\<close> of the \<open>DisjunctionMax\<close> do not appear in the
  result.
\<close>

theorem single_child_unwrapped:
  "(normalize_subqs AndC qs = [s] \<longrightarrow> normalize (And qs b) = s \<and> s \<in> normalize ` set qs)
 \<and> (normalize_subqs OrC qs = [s] \<longrightarrow> normalize (Or qs b m) = s \<and> s \<in> normalize ` set qs)
 \<and> (normalize_subqs DisjunctionMaxC qs = [s]
      \<longrightarrow> normalize (DisjunctionMax qs b t) = s \<and> s \<in> normalize ` set qs)"
proof (intro conjI impI)
  assume a: "normalize_subqs AndC qs = [s]"
  from sole_survivor[OF a, of b] show "normalize (And qs b) = s"
    by (simp only: normalize_And)
  from sole_survivor[OF a, of b] show "s \<in> normalize ` set qs" by blast
next
  assume a: "normalize_subqs OrC qs = [s]"
  from sole_survivor[OF a, of b] show "normalize (Or qs b m) = s"
    by (simp del: normalize.simps add: normalize_Or set_minmatch_other)
  from sole_survivor[OF a, of b] show "s \<in> normalize ` set qs" by blast
next
  assume a: "normalize_subqs DisjunctionMaxC qs = [s]"
  from sole_survivor[OF a, of b] show "normalize (DisjunctionMax qs b t) = s"
    by (simp del: normalize.simps add: normalize_DisjunctionMax set_tiebreak_other)
  from sole_survivor[OF a, of b] show "s \<in> normalize ` set qs" by blast
qed

theorem single_child_unwrapped_witness:
  "normalize_subqs AndC [Term ''f'' ''a'' 3, NullQuery, Term ''f'' ''a'' 1] = [Term ''f'' ''a'' 3]
   \<and> normalize_subqs OrC [Term ''f'' ''a'' 3, NullQuery, Term ''f'' ''a'' 1] = [Term ''f'' ''a'' 3]
   \<and> normalize_subqs DisjunctionMaxC [Term ''f'' ''a'' 3, NullQuery, Term ''f'' ''a'' 1]
       = [Term ''f'' ''a'' 3]
   \<and> normalize (And [Term ''f'' ''a'' 3, NullQuery, Term ''f'' ''a'' 1] 5) = Term ''f'' ''a'' 3
   \<and> normalize (Or [Term ''f'' ''a'' 3, NullQuery, Term ''f'' ''a'' 1] 5 2) = Term ''f'' ''a'' 3
   \<and> normalize (DisjunctionMax [Term ''f'' ''a'' 3, NullQuery, Term ''f'' ''a'' 1] 5 (1/2))
       = Term ''f'' ''a'' 3"
proof -
  have h: "normalize_subqs AndC [Term ''f'' ''a'' 3, NullQuery, Term ''f'' ''a'' 1] = [Term ''f'' ''a'' 3]"
    "normalize_subqs OrC [Term ''f'' ''a'' 3, NullQuery, Term ''f'' ''a'' 1] = [Term ''f'' ''a'' 3]"
    "normalize_subqs DisjunctionMaxC [Term ''f'' ''a'' 3, NullQuery, Term ''f'' ''a'' 1]
       = [Term ''f'' ''a'' 3]"
    by (simp_all add: normalize_subqs_def)
  from h single_child_unwrapped
         [of "[Term ''f'' ''a'' 3, NullQuery, Term ''f'' ''a'' 1]" "Term ''f'' ''a'' 3" 5 2 "1/2"]
  show ?thesis by blast
qed

section \<open>Properties of phrase equality\<close>

text \<open>Two phrases of one field cannot be compared: the comparison raises.\<close>

lemma Phrase_eq_same_field:
  "Phrase_eq (Phrase f ws sl b) (Phrase f ws' sl' b') = Inl AttributeError"
  by (simp add: Phrase_eq_def attr_word_def)

lemma Phrase_eq_other_field:
  "f \<noteq> f' \<Longrightarrow> Phrase_eq (Phrase f ws sl b) (Phrase f' ws' sl' b') = Inr False"
  by (simp add: Phrase_eq_def)

text \<open>
  Claim C2 says that two \<open>Phrase\<close> queries are equal exactly when field name, words,
  slop and boost coincide, and that every \<open>Phrase\<close> equals itself. In the code,
  \<open>Phrase("f", ["a", "b"]) == Phrase("f", ["a", "b"])\<close> raises \<open>AttributeError\<close>:
  \<open>Phrase.__eq__\<close> reads \<open>other.word\<close> where the attribute is \<open>words\<close>.
\<close>

theorem Phrase_eq_self_raises:
  "Phrase_eq (Phrase ''f'' [''a'', ''b''] 1 1) (Phrase ''f'' [''a'', ''b''] 1 1)
   = Inl AttributeError"
  by (simp add: Phrase_eq_def attr_word_def)

section \<open>Properties of term extraction\<close>

lemma all_terms_tuples:
  "all_terms_into q ts ph = Inr ts' \<Longrightarrow> no_variations q \<Longrightarrow> \<forall>e \<in> ts. is_tuple e
     \<Longrightarrow> \<forall>e \<in> ts'. is_tuple e"
  "all_terms_each qs ts ph = Inr ts' \<Longrightarrow> \<forall>q \<in> set qs. no_variations q
     \<Longrightarrow> \<forall>e \<in> ts. is_tuple e \<Longrightarrow> \<forall>e \<in> ts'. is_tuple e"
  by (induction q ts ph and qs ts ph arbitrary: ts' and ts'
        rule: all_terms_into_all_terms_each.induct)
     (auto split: sum.splits if_splits)

text \<open>
  Claim C7, as stated, fails twice. \<open>FuzzyTerm\<close> overrides \<open>_all_terms\<close> and adds its
  own \<open>(fieldname, text)\<close>, so a multi-term leaf does add to the set; and
  \<open>Variations._all_terms\<close> adds the string \<open>self.text\<close>, which is not a
  \<open>(field, text)\<close> pair.
\<close>

theorem all_terms_fuzzy_variations:
  "all_terms (FuzzyTerm ''f'' ''a'' 1 (1/2) 1) (Some {}) True \<noteq> Inr {}
   \<and> all_terms (Variations ''f'' ''a'' 1) (Some {}) True = Inr {Text ''a''}
   \<and> \<not> is_tuple (Text ''a'')"
  by (simp add: all_terms_def)

text \<open>
  Claim C7, amended. \<open>all_terms\<close> adds nothing for a \<open>Prefix\<close>, \<open>Wildcard\<close> or
  \<open>TermRange\<close> leaf; a \<open>FuzzyTerm\<close> leaf adds its own \<open>(field, text)\<close> pair; a
  \<open>Variations\<close> leaf adds one element, made of the text the user supplied (the
  statement leaves open whether it is the text or its pair with the field); and for a
  query without \<open>Variations\<close> leaves, a set of pairs stays a set of pairs.
\<close>

theorem all_terms_leaves:
  "all_terms (Prefix f t b) (Some ts) ph = Inr ts
   \<and> all_terms (Wildcard f t b) (Some ts) ph = Inr ts
   \<and> all_terms (TermRange f s e sx ex b) (Some ts) ph = Inr ts
   \<and> all_terms (FuzzyTerm f t b ms pl) (Some ts) ph = Inr (insert (TermTuple f t) ts)
   \<and> all_terms (Variations f t b) (Some ts) ph
       \<in> {Inr (insert (Text t) ts), Inr (insert (TermTuple f t) ts)}
   \<and> (no_variations q \<and> (\<forall>e \<in> ts. is_tuple e) \<and> all_terms q (Some ts) ph = Inr ts'
        \<longrightarrow> (\<forall>e \<in> ts'. is_tuple e))"
  using all_terms_tuples(1)[of q ts ph ts'] by (simp add: all_terms_def)

theorem all_terms_leaves_witness:
  "no_variations (And [Term ''f'' ''a'' 1, Not (Phrase ''g'' [''b'', ''c''] 1 1) 1,
                       FuzzyTerm ''f'' ''d'' 1 (1/2) 1] 1)
   \<and> is_tuple (TermTuple ''h'' ''z'')
   \<and> all_terms (And [Term ''f'' ''a'' 1, Not (Phrase ''g'' [''b'', ''c''] 1 1) 1,
                     FuzzyTerm ''f'' ''d'' 1 (1/2) 1] 1) (Some {TermTuple ''h'' ''z''}) True
       = Inr {TermTuple ''h'' ''z'', TermTuple ''f'' ''a'', TermTuple ''g'' ''b'',
              TermTuple ''g'' ''c'', TermTuple ''f'' ''d''}
   \<and> is_tuple (TermTuple ''f'' ''a'') \<and> is_tuple (TermTuple ''g'' ''b'')
   \<and> is_tuple (TermTuple ''g'' ''c'') \<and> is_tuple (TermTuple ''f'' ''d'')"
proof -
  let ?q = "And [Term ''f'' ''a'' 1, Not (Phrase ''g'' [''b'', ''c''] 1 1) 1,
                 FuzzyTerm ''f'' ''d'' 1 (1/2) 1] 1"
  let ?ts = "{TermTuple ''h'' ''z''}"
  let ?ts' = "{TermTuple ''h'' ''z'', TermTuple ''f'' ''a'', TermTuple ''g'' ''b'',
              TermTuple ''g'' ''c'', TermTuple ''f'' ''d''}"
  have h1: "no_variations ?q" by simp
  have h2: "\<forall>e \<in> ?ts. is_tuple e" by simp
  have h3: "all_terms ?q (Some ?ts) True = Inr ?ts'" by (auto simp: all_terms_def)
  from all_terms_leaves[of _ _ _ ?ts True _ _ _ _ _ _ ?q ?ts'] h1 h2 h3
  have "\<forall>e \<in> ?ts'. is_tuple e" by blast
  with h1 h2 h3 show ?thesis by blast
qed

section \<open>Properties of \<open>MultiReader.term_info\<close>\<close>










section \<open>Properties of simplification\<close>

text \<open>
  A compound with a positive and a negated subquery never simplifies to a query: once
  the positive subqueries are simplified, the call \<open>.simplify()\<close> raises.
\<close>

lemma simplify_compound_mixed:
  "subs \<noteq> [] \<Longrightarrow> nots \<noteq> [] \<Longrightarrow> \<exists>e. simplify_compound c b subs nots = Inl e"
  by (auto simp: simplify_compound_def simplify_no_reader_def split: sum.splits)

lemma simplify_mixed_raises:
  assumes "fst (split_queries qs) \<noteq> []" "snd (split_queries qs) \<noteq> []"
  shows "\<exists>e. simplify L R (And qs b) = Inl e" "\<exists>e. simplify L R (Or qs b m) = Inl e"
  using assms by (simp_all add: simplify_compound_mixed split_queries_def)

lemma simplify_mixed_TypeError:
  assumes "fst (split_queries qs) \<noteq> []" "snd (split_queries qs) \<noteq> []"
    and "collect (map (simplify L R) (fst (split_queries qs))) = Inr subs"
  shows "simplify L R (And qs b) = Inl TypeError" "simplify L R (Or qs b m) = Inl TypeError"
  using assms by (simp_all add: simplify_compound_def split_queries_def simplify_no_reader_def)

text \<open>Without a positive subquery the result is \<open>NullQuery\<close>.\<close>

lemma simplify_no_positive:
  assumes "fst (split_queries qs) = []"
  shows "simplify L R (And qs b) = Inr NullQuery" "simplify L R (Or qs b m) = Inr NullQuery"
  using assms by (simp_all add: simplify_compound_def split_queries_def)

text \<open>
  Claim C3 says that an \<open>And\<close> or \<open>Or\<close> with a positive and a \<open>Not\<close> child simplifies
  to \<open>AndNot(S, N)\<close>. In the code, for every reader,
  \<open>And([Term("c", "render"), Not(Term("c", "texture"))]).simplify(reader)\<close> raises
  \<open>TypeError\<close>: \<open>CompoundQuery.simplify\<close> calls \<open>Or(nots).normalize().simplify()\<close>
  without the reader.
\<close>

theorem simplify_mixed_example:
  "simplify L R (And [Term ''c'' ''render'' 1, Not (Term ''c'' ''texture'' 1) 1] 1)
   = Inl TypeError"
  by (simp add: simplify_compound_def split_queries_def simplify_no_reader_def)

section \<open>Properties of matcher construction\<close>

text \<open>
  Claim C10. \<open>Not.matcher\<close> does not depend on \<open>exclude_docs\<close>: for any two values the
  result is the same, namely the \<open>InverseMatcher\<close> over the matcher that the inner
  query builds with no exclusions, with \<open>doc_count_all\<close> of the reader as its limit
  and the reader's \<open>is_deleted\<close> as \<open>missing\<close> (or the exception of that inner
  construction).
\<close>

theorem Not_matcher_exclude_docs:
  "matcher L S (Not q b) e1 = matcher L S (Not q b) e2
   \<and> matcher L S (Not q b) e1 =
       (case matcher L S q None of
          Inl e \<Rightarrow> Inl e
        | Inr child \<Rightarrow>
            Inr (InverseMatcher child (doc_count_all (s_reader S)) (is_deleted (s_reader S))))"
  by simp

subsection \<open>Where \<open>TermNotFound\<close> is caught\<close>


text \<open>
  The loop of \<open>MultiTerm.matcher\<close> passes over the words whose term matcher raises
  \<open>TermNotFound\<close> and collects the matchers of the others.
\<close>

lemma MultiTerm_loop_skips:
  "MultiTerm_loop S f ws e ms =
   MultiTerm_loop S f (filter (\<lambda>w. Term_matcher S f w e \<noteq> Inl TermNotFound) ws) e ms"
  by (induction ws arbitrary: ms) (auto split: sum.splits)





end
